theory Spec2Isabelle
  imports Main
begin

section \<open>The environment: processes, streams, callbacks\<close>

text \<open>
  \<^verbatim>\<open>src/services/process.py\<close> drives an operating-system process through
  \<^verbatim>\<open>anyio.open_process\<close>. The process is the environment of the service, so it is
  a parameter of the model: a \<open>proc\<close> describes how one spawned process behaves.
  Time is counted in clock ticks since the spawn.

  What a pump reads from a stream is either a chunk of text or bytes that are not
  valid UTF-8: line 136 wraps the pipe in a \<^verbatim>\<open>TextReceiveStream\<close>, whose decoder is
  strict, so that on such bytes the read raises \<^verbatim>\<open>UnicodeDecodeError\<close>. A stream is
  the list of what arrives on it, each item with its arrival tick (ticks do not
  decrease along the list), and whether end-of-stream follows the last item: a pipe
  that another process keeps open never reaches it.
\<close>

datatype item = Chunk string | Undecodable

record stream =
  items :: "(nat \<times> item) list"
  closes :: bool

text \<open>
  \<^item> \<open>natural_exit\<close>: the tick at which the process exits by itself and its exit
    code; \<open>None\<close> for a process that never exits unless it is signalled.
  \<^item> \<open>on_terminate\<close>: how the process reacts to the graceful signal: it exits the
    given number of ticks after the signal with the given code; \<open>None\<close> for a
    process that ignores the signal.
  \<^item> The forced kill ends the process at once, with code \<open>-9\<close>.
  \<^item> \<open>exit_wins_tie\<close>: whether a wait under a deadline observes an exit that falls
    on the very tick of the deadline (the event loop decides this race).
  \<^item> \<open>p_stdout\<close>, \<open>p_stderr\<close>: the streams of the handle; \<open>None\<close> when the handle has
    no such stream (\<^verbatim>\<open>process.stdout is None\<close>).
\<close>

datatype signal = SIGTERM | SIGKILL

record proc =
  natural_exit :: "(nat \<times> int) option"
  on_terminate :: "(nat \<times> int) option"
  exit_wins_tie :: bool
  p_stdout :: "stream option"
  p_stderr :: "stream option"

text \<open>
  A callback is known by the outcome of each of its invocations: it returns, or it
  raises an \<^verbatim>\<open>Exception\<close> (the class that line 79 catches). It is given the number of
  earlier invocations and the chunk.
\<close>

datatype cb_outcome = Returned | Raised

type_synonym callback = "nat \<Rightarrow> string \<Rightarrow> cb_outcome"

text \<open>Keyword arguments are name/value pairs, in call order.\<close>

type_synonym kwargs = "(string \<times> string) list"

text \<open>
  \<open>open_process\<close> is what the operating system answers to a well-formed call
  \<^verbatim>\<open>anyio.open_process(cmd, cwd=cwd, **kwargs)\<close>: \<open>None\<close> when it cannot create the
  process (the call raises \<^verbatim>\<open>OSError\<close>).
  \<open>backend_available\<close> tells whether \<^verbatim>\<open>anyio.run\<close> can load the named event-loop
  backend.
\<close>

record os_env =
  open_process :: "string list \<Rightarrow> string \<Rightarrow> kwargs \<Rightarrow> proc option"
  backend_available :: "string \<Rightarrow> bool"

section \<open>The service instance\<close>

text \<open>
  The fields of \<^verbatim>\<open>ProcessRunnerService\<close> (lines 52--60), followed by what an observer
  of the instance records: the clock (ticks since the last spawn), the calls of
  \<^verbatim>\<open>Process.terminate()\<close> and \<^verbatim>\<open>Process.kill()\<close> with their times, the chunks passed to
  each callback, the number of callback errors logged, and the number of processes
  spawned.
\<close>

record runner =
  cmd :: "string list"
  cwd :: string
  stdout_callback :: "callback option"
  stderr_callback :: "callback option"
  timeout :: "nat option"
  terminate_grace_period :: nat
  stdout_history :: string
  stderr_history :: string
  process :: "proc option"
  clock :: nat
  signals :: "(nat \<times> signal) list"
  stdout_calls :: "string list"
  stderr_calls :: "string list"
  callback_errors :: nat
  spawned :: nat

definition init ::
  "string list \<Rightarrow> string \<Rightarrow> callback option \<Rightarrow> callback option \<Rightarrow> nat option \<Rightarrow> nat \<Rightarrow> runner" where
  "init c d out_cb err_cb t g =
     \<lparr> cmd = c, cwd = d, stdout_callback = out_cb, stderr_callback = err_cb,
       timeout = t, terminate_grace_period = g,
       stdout_history = [], stderr_history = [], process = None,
       clock = 0, signals = [], stdout_calls = [], stderr_calls = [],
       callback_errors = 0, spawned = 0 \<rparr>"

text \<open>The properties \<^verbatim>\<open>stdout\<close>, \<^verbatim>\<open>stderr\<close> and \<^verbatim>\<open>is_running\<close> (lines 183--194).\<close>

definition stdout :: "runner \<Rightarrow> string" where
  "stdout s = stdout_history s"

definition stderr :: "runner \<Rightarrow> string" where
  "stderr s = stderr_history s"

definition is_running :: "runner \<Rightarrow> bool" where
  "is_running s = (process s \<noteq> None)"

text \<open>\<^verbatim>\<open>clear_history\<close> (lines 196--199).\<close>

definition clear_history :: "runner \<Rightarrow> runner" where
  "clear_history s = s\<lparr>stdout_history := [], stderr_history := []\<rparr>"

section \<open>When the process exits\<close>

text \<open>
  The exit that one signal call causes, and the exit of the process under all the
  signal calls made so far (in the order they were made): the earliest of its natural
  exit and the exits the signals cause. A signal sent after the exit changes nothing.
\<close>

fun signal_exit :: "proc \<Rightarrow> nat \<times> signal \<Rightarrow> (nat \<times> int) option" where
  "signal_exit p (t, SIGTERM) =
     (case on_terminate p of None \<Rightarrow> None | Some (d, rc) \<Rightarrow> Some (t + d, rc))"
| "signal_exit p (t, SIGKILL) = Some (t, - 9)"

fun earlier :: "(nat \<times> int) option \<Rightarrow> (nat \<times> int) option \<Rightarrow> (nat \<times> int) option" where
  "earlier None b = b"
| "earlier (Some a) None = Some a"
| "earlier (Some (ta, ra)) (Some (tb, rb)) = (if tb < ta then Some (tb, rb) else Some (ta, ra))"

definition proc_exit :: "proc \<Rightarrow> (nat \<times> signal) list \<Rightarrow> (nat \<times> int) option" where
  "proc_exit p sigs = foldl earlier (natural_exit p) (map (signal_exit p) sigs)"

text \<open>Whether the process, left alone, exits within \<open>t\<close> ticks, as a wait under that
  deadline sees it.\<close>

definition exits_within :: "proc \<Rightarrow> nat \<Rightarrow> bool" where
  "exits_within p t =
     (case natural_exit p of
        None \<Rightarrow> False
      | Some (e, rc) \<Rightarrow> e < t \<or> (e = t \<and> exit_wins_tie p))"

text \<open>
  \<^verbatim>\<open>with anyio.fail_after(d): await process.wait()\<close>, entered with the deadline at
  tick \<open>deadline\<close>: the exit that the wait observes, or \<open>None\<close> when the deadline
  fires first and the wait raises \<^verbatim>\<open>TimeoutError\<close>.
\<close>

definition wait_until :: "proc \<Rightarrow> (nat \<times> signal) list \<Rightarrow> nat \<Rightarrow> (nat \<times> int) option" where
  "wait_until p sigs deadline =
     (case proc_exit p sigs of
        None \<Rightarrow> None
      | Some (e, rc) \<Rightarrow>
          if e < deadline \<or> (e = deadline \<and> exit_wins_tie p) then Some (e, rc) else None)"

text \<open>\<^verbatim>\<open>process.returncode\<close> read at tick \<open>now\<close>: \<open>None\<close> while the process is alive.\<close>

definition returncode :: "proc \<Rightarrow> (nat \<times> signal) list \<Rightarrow> nat \<Rightarrow> int option" where
  "returncode p sigs now =
     (case proc_exit p sigs of
        None \<Rightarrow> None
      | Some (e, rc) \<Rightarrow> if e \<le> now then Some rc else None)"

section \<open>The stream pump\<close>

text \<open>
  \<^verbatim>\<open>_handle_stream\<close> (lines 62--84) over what one stream delivers to it. The triple is
  the buffer, the chunks passed to the callback so far, and the count of logged
  callback errors; the flag of the result tells whether the pump ended by raising.
  The empty list is where the pump stops reading: at end-of-stream the \<^verbatim>\<open>async for\<close>
  ends. On undecodable bytes the read raises \<^verbatim>\<open>UnicodeDecodeError\<close>, which line 83 does
  not catch, so the error leaves the pump. A raise of the callback is caught at line 79
  and logged; line 82 then writes the chunk.
\<close>

fun handle_stream ::
  "item list \<Rightarrow> callback option \<Rightarrow> string \<times> string list \<times> nat \<Rightarrow>
     bool \<times> string \<times> string list \<times> nat" where
  "handle_stream [] callback (buffer, calls, errs) = (False, buffer, calls, errs)"
| "handle_stream (Undecodable # stream) callback (buffer, calls, errs) =
     (True, buffer, calls, errs)"
| "handle_stream (Chunk text # stream) callback (buffer, calls, errs) =
     (case callback of
        None \<Rightarrow> handle_stream stream callback (buffer @ text, calls, errs)
      | Some f \<Rightarrow>
          (case f (length calls) text of
             Returned \<Rightarrow> handle_stream stream callback (buffer @ text, calls @ [text], errs)
           | Raised \<Rightarrow> handle_stream stream callback (buffer @ text, calls @ [text], Suc errs)))"

text \<open>The chunks that are read before the first undecodable bytes, or before the end.\<close>

fun decoded :: "item list \<Rightarrow> string list" where
  "decoded [] = []"
| "decoded (Undecodable # stream) = []"
| "decoded (Chunk text # stream) = text # decoded stream"

text \<open>The chunks of a stream of the handle: none when the handle has no such stream.\<close>

definition delivered :: "stream option \<Rightarrow> string list" where
  "delivered st = (case st of None \<Rightarrow> [] | Some x \<Rightarrow> decoded (map snd (items x)))"

text \<open>
  The tick at which the pump of a stream raises, if it does, and the earliest such
  tick over both streams of a handle: the tick at which the task group of \<^verbatim>\<open>run\<close> is
  cancelled.
\<close>

fun first_failure :: "(nat \<times> item) list \<Rightarrow> nat option" where
  "first_failure [] = None"
| "first_failure ((t, Undecodable) # stream) = Some t"
| "first_failure ((t, Chunk text) # stream) = first_failure stream"

definition stream_failure :: "stream option \<Rightarrow> nat option" where
  "stream_failure st = (case st of None \<Rightarrow> None | Some x \<Rightarrow> first_failure (items x))"

definition fail_tick :: "proc \<Rightarrow> nat option" where
  "fail_tick p =
     (case stream_failure (p_stdout p) of
        None \<Rightarrow> stream_failure (p_stderr p)
      | Some a \<Rightarrow>
          (case stream_failure (p_stderr p) of
             None \<Rightarrow> Some a
           | Some b \<Rightarrow> Some (min a b)))"

text \<open>Whether end-of-stream arrives on every stream the handle has.\<close>

definition stream_closes :: "stream option \<Rightarrow> bool" where
  "stream_closes st = (case st of None \<Rightarrow> True | Some x \<Rightarrow> closes x)"

definition all_close :: "proc \<Rightarrow> bool" where
  "all_close p = (stream_closes (p_stdout p) \<and> stream_closes (p_stderr p))"

text \<open>
  What a pump has read of its stream when it stops: everything, when it runs to
  end-of-stream; what had arrived by the tick \<open>c\<close>, when the task group is cancelled at
  that tick.
\<close>

definition readable :: "nat option \<Rightarrow> stream \<Rightarrow> item list" where
  "readable stop x =
     (case stop of
        None \<Rightarrow> map snd (items x)
      | Some c \<Rightarrow> map snd (takeWhile (\<lambda>(t, i). t \<le> c) (items x)))"

text \<open>The chunks that the pump of a stream of the handle has read when it stops.\<close>

definition captured :: "nat option \<Rightarrow> stream option \<Rightarrow> string list" where
  "captured stop st = (case st of None \<Rightarrow> [] | Some x \<Rightarrow> decoded (readable stop x))"

text \<open>
  The two pumps that \<^verbatim>\<open>run\<close> starts in its task group (lines 133--146): one per
  stream the handle has. They write to separate buffers, so the state after both have
  stopped does not depend on how they interleave.
\<close>

definition pump_stdout :: "proc \<Rightarrow> nat option \<Rightarrow> runner \<Rightarrow> runner" where
  "pump_stdout p stop s =
     (case p_stdout p of
        None \<Rightarrow> s
      | Some x \<Rightarrow>
          (case handle_stream (readable stop x) (stdout_callback s)
                  (stdout_history s, stdout_calls s, callback_errors s) of
             (raised, b, c, n) \<Rightarrow>
               s\<lparr>stdout_history := b, stdout_calls := c, callback_errors := n\<rparr>))"

definition pump_stderr :: "proc \<Rightarrow> nat option \<Rightarrow> runner \<Rightarrow> runner" where
  "pump_stderr p stop s =
     (case p_stderr p of
        None \<Rightarrow> s
      | Some x \<Rightarrow>
          (case handle_stream (readable stop x) (stderr_callback s)
                  (stderr_history s, stderr_calls s, callback_errors s) of
             (raised, b, c, n) \<Rightarrow>
               s\<lparr>stderr_history := b, stderr_calls := c, callback_errors := n\<rparr>))"

section \<open>Termination\<close>

text \<open>A call of \<^verbatim>\<open>Process.terminate()\<close> or \<^verbatim>\<open>Process.kill()\<close> at the current tick.\<close>

definition send_signal :: "signal \<Rightarrow> runner \<Rightarrow> runner" where
  "send_signal sg s = s\<lparr>signals := signals s @ [(clock s, sg)]\<rparr>"


text \<open>
  Lines 94--103: the wait for the exit under the grace period, and the forced kill
  when the wait times out. \<open>p\<close> is the handle in \<^verbatim>\<open>self._process\<close> and \<open>deadline\<close> is
  the tick at which the grace period ends, fixed when \<^verbatim>\<open>fail_after\<close> is entered. The
  wait at line 96 is the only point where \<^verbatim>\<open>terminate\<close> suspends; other calls may
  have sent signals meanwhile.
\<close>

definition grace_wait :: "proc \<Rightarrow> nat \<Rightarrow> runner \<Rightarrow> runner" where
  "grace_wait p deadline s =
     (case wait_until p (signals s) deadline of
        Some (e, rc) \<Rightarrow> s\<lparr>clock := max (clock s) e\<rparr>
      | None \<Rightarrow> send_signal SIGKILL (s\<lparr>clock := max (clock s) deadline\<rparr>))"

text \<open>
  \<^verbatim>\<open>terminate\<close> (lines 86--103), called at the current tick and run to its end: the
  guard of line 88, the graceful signal of line 93, then the wait.
\<close>

definition terminate :: "runner \<Rightarrow> runner" where
  "terminate s =
     (case process s of
        None \<Rightarrow> s
      | Some p \<Rightarrow>
          grace_wait p (clock s + terminate_grace_period s) (send_signal SIGTERM s))"



section \<open>Running the process\<close>

datatype run_error = OSError | ProcessTimeoutError | ExceptionGroup | TypeError | LookupError

type_synonym run_result = "int option \<times> string \<times> string"

text \<open>
  The keyword parameters of \<^verbatim>\<open>anyio.open_process\<close>. The call of lines 126--128,
  \<^verbatim>\<open>anyio.open_process(self.cmd, cwd=self.cwd, **kwargs)\<close>, is a \<^verbatim>\<open>TypeError\<close> of the
  call itself when a keyword is \<^verbatim>\<open>cwd\<close> again or is none of the parameters, and when the
  command is empty; otherwise the operating system answers.
\<close>

definition open_process_params :: "string list" where
  "open_process_params =
     [''stdin'', ''stdout'', ''stderr'', ''cwd'', ''env'', ''startupinfo'', ''creationflags'',
      ''start_new_session'', ''pass_fds'', ''user'', ''group'', ''extra_groups'', ''umask'']"

definition bad_call :: "string list \<Rightarrow> kwargs \<Rightarrow> bool" where
  "bad_call c kw =
     (c = [] \<or> list_ex (\<lambda>k. k = ''cwd'' \<or> k \<notin> set open_process_params) (map fst kw))"

definition spawn :: "os_env \<Rightarrow> kwargs \<Rightarrow> runner \<Rightarrow> run_error + proc" where
  "spawn env kw s =
     (if bad_call (cmd s) kw then Inl TypeError
      else
        (case open_process env (cmd s) (cwd s) kw of
           None \<Rightarrow> Inl OSError
         | Some p \<Rightarrow> Inr p))"

text \<open>
  The end of a run in which no pump raises. \<open>completed\<close> is lines 172--175.
  \<open>timed_out\<close> is lines 154--170 with the exit from the \<^verbatim>\<open>async with\<close> of line 126,
  which is left only when the process has exited.
\<close>

definition completed :: "proc \<Rightarrow> runner \<Rightarrow> ((run_error + run_result) \<times> runner) option" where
  "completed p s =
     Some (Inr (returncode p (signals s) (clock s), stdout s, stderr s), s\<lparr>process := None\<rparr>)"

definition timed_out :: "proc \<Rightarrow> runner \<Rightarrow> ((run_error + run_result) \<times> runner) option" where
  "timed_out p s =
     (let s1 = terminate s in
      case proc_exit p (signals s1) of
        None \<Rightarrow> None
      | Some (e, rc) \<Rightarrow>
          Some (Inl ProcessTimeoutError, s1\<lparr>clock := max (clock s1) e, process := None\<rparr>))"

text \<open>
  The end of a run in which a pump raises at tick \<open>c\<close>; \<open>cancelled_body\<close> is what
  the body of the task group has done by then. The task group is cancelled:
  the other pump stops, and a wait of lines 151, 153 or 96 that is still pending ends
  with a cancellation, which neither \<^verbatim>\<open>except TimeoutError\<close> (lines 154 and 98)
  catches. So nothing more is sent when the failure comes before the deadline of the
  wait (a failure on the very tick of a deadline is taken to come first); when the
  timeout has fired before, the graceful signal has been sent, and the forced kill too
  if the grace period has ended before the failure. The \<^verbatim>\<open>ExceptionGroup\<close> of the task
  group passes line 163, which matches cancellations only, and leaves \<^verbatim>\<open>run\<close> when the
  \<^verbatim>\<open>async with\<close> of line 126 has seen the process exit; if the process never exits,
  \<^verbatim>\<open>run\<close> never returns.
\<close>

definition cancelled_body :: "proc \<Rightarrow> nat \<Rightarrow> runner \<Rightarrow> runner" where
  "cancelled_body p c s =
     (case timeout s of
        None \<Rightarrow> s
      | Some t \<Rightarrow>
          if wait_until p (signals s) t \<noteq> None \<or> c \<le> t then s
          else
            (let s2 = send_signal SIGTERM (s\<lparr>clock := t\<rparr>);
                 deadline = t + terminate_grace_period s
             in if wait_until p (signals s2) deadline = None \<and> c \<le> deadline then s2
                else grace_wait p deadline s2))"

definition cancelled_run :: "proc \<Rightarrow> nat \<Rightarrow> runner \<Rightarrow> ((run_error + run_result) \<times> runner) option" where
  "cancelled_run p c s =
     (let s1 = cancelled_body p c s in
      case proc_exit p (signals s1) of
        None \<Rightarrow> None
      | Some (e, rc) \<Rightarrow>
          Some (Inl ExceptionGroup, s1\<lparr>clock := max (max (clock s1) c) e, process := None\<rparr>))"

text \<open>
  \<^verbatim>\<open>run\<close> (lines 105--177). The result is \<open>None\<close> when the call never returns: the
  wait at line 153 lasts until the process exits, and the task group is left only when
  both pumps have stopped, which a stream that never reaches end-of-stream prevents.
  On every path that ends, the \<^verbatim>\<open>finally\<close> of line 176 clears the handle.
\<close>

definition run :: "os_env \<Rightarrow> kwargs \<Rightarrow> runner \<Rightarrow> ((run_error + run_result) \<times> runner) option" where
  "run env kw s =
     (let s1 = s\<lparr>stdout_history := [], stderr_history := []\<rparr> in
      case spawn env kw s1 of
        Inl err \<Rightarrow> Some (Inl err, s1\<lparr>process := None\<rparr>)
      | Inr p \<Rightarrow>
          (let s2 = s1\<lparr>process := Some p, clock := 0, signals := [],
                       spawned := Suc (spawned s1)\<rparr>;
               s3 = pump_stderr p (fail_tick p) (pump_stdout p (fail_tick p) s2)
           in case fail_tick p of
                Some c \<Rightarrow> cancelled_run p c s3
              | None \<Rightarrow>
                  if \<not> all_close p then None
                  else
                    (case timeout s3 of
                       None \<Rightarrow>
                         (case proc_exit p (signals s3) of
                            None \<Rightarrow> None
                          | Some (e, rc) \<Rightarrow> completed p (s3\<lparr>clock := e\<rparr>))
                     | Some t \<Rightarrow>
                         (case wait_until p (signals s3) t of
                            Some (e, rc) \<Rightarrow> completed p (s3\<lparr>clock := e\<rparr>)
                          | None \<Rightarrow> timed_out p (s3\<lparr>clock := t\<rparr>)))))"

text \<open>
  \<^verbatim>\<open>run_sync\<close> (lines 179--181): \<^verbatim>\<open>anyio.run(self.run, **kwargs)\<close>. The signature is
  \<^verbatim>\<open>anyio.run(func, *args, backend="asyncio", backend_options=None)\<close>: a keyword
  argument of any other name is a \<^verbatim>\<open>TypeError\<close> of the call itself, raised before
  \<^verbatim>\<open>self.run\<close> is entered; a backend that cannot be loaded is a \<^verbatim>\<open>LookupError\<close>;
  otherwise \<^verbatim>\<open>self.run()\<close> is called with no keyword argument.
\<close>

definition anyio_run_params :: "string list" where
  "anyio_run_params = [''backend'', ''backend_options'']"

definition run_sync :: "os_env \<Rightarrow> kwargs \<Rightarrow> runner \<Rightarrow> ((run_error + run_result) \<times> runner) option" where
  "run_sync env kw s =
     (if list_ex (\<lambda>k. k \<notin> set anyio_run_params) (map fst kw) then Some (Inl TypeError, s)
      else
        (let backend = (case map_of kw ''backend'' of None \<Rightarrow> ''asyncio'' | Some b \<Rightarrow> b) in
         if backend = ''asyncio'' \<or> backend_available env backend then run env [] s
         else Some (Inl LookupError, s)))"

text \<open>What a caller sees of a run: the outcome and the two accessors.\<close>

definition observed :: "((run_error + run_result) \<times> runner) option \<Rightarrow>
    ((run_error + run_result) \<times> string \<times> string) option" where
  "observed x = map_option (\<lambda>(r, s'). (r, stdout s', stderr s')) x"

text \<open>What the outcome of a run and the accessors depend on, of a state of the instance.\<close>

definition core ::
  "runner \<Rightarrow> nat option \<times> nat \<times> (nat \<times> signal) list \<times> nat \<times> proc option \<times> string \<times> string" where
  "core s = (timeout s, terminate_grace_period s, signals s, clock s, process s,
             stdout_history s, stderr_history s)"

section \<open>The demonstration of the module\<close>

text \<open>
  The module's own demonstration (lines 202--244) runs \<^verbatim>\<open>echo hello\<close> with no
  timeout and \<^verbatim>\<open>sleep 5\<close> with a timeout of one second, with callbacks that write
  each chunk to the terminal. One tick is a second here. \<open>stubborn\<close> is a process
  that writes to both streams, never exits by itself and ignores the graceful signal.
  \<open>garbled\<close> is a process that writes a line and then the byte \<open>0xFF\<close>, which is not
  valid UTF-8, and exits with code 0 after five seconds. \<open>detached\<close> is a process that
  writes a line and exits with code 0 after five seconds, leaving behind a child of its
  own that keeps the pipe of stdout open.
\<close>

definition text_stream :: "string list \<Rightarrow> stream" where
  "text_stream chunks = \<lparr> items = map (\<lambda>text. (0, Chunk text)) chunks, closes = True \<rparr>"

definition echo_hello :: proc where
  "echo_hello =
     \<lparr> natural_exit = Some (1, 0), on_terminate = Some (0, - 15), exit_wins_tie = True,
       p_stdout = Some (text_stream [''hello'' @ [CHR 0x0A]]),
       p_stderr = Some (text_stream []) \<rparr>"

definition sleep_5 :: proc where
  "sleep_5 =
     \<lparr> natural_exit = Some (5, 0), on_terminate = Some (0, - 15), exit_wins_tie = True,
       p_stdout = Some (text_stream []), p_stderr = Some (text_stream []) \<rparr>"

definition stubborn :: proc where
  "stubborn =
     \<lparr> natural_exit = None, on_terminate = None, exit_wins_tie = True,
       p_stdout = Some (text_stream [''a'', ''b'']),
       p_stderr = Some (text_stream [''x'']) \<rparr>"

definition garbled :: proc where
  "garbled =
     \<lparr> natural_exit = Some (5, 0), on_terminate = Some (0, - 15), exit_wins_tie = True,
       p_stdout = Some \<lparr> items = [(0, Chunk ''ok''), (2, Undecodable)], closes = True \<rparr>,
       p_stderr = Some (text_stream []) \<rparr>"

definition detached :: proc where
  "detached =
     \<lparr> natural_exit = Some (5, 0), on_terminate = Some (0, - 15), exit_wins_tie = True,
       p_stdout = Some \<lparr> items = [(0, Chunk ''started'')], closes = False \<rparr>,
       p_stderr = Some (text_stream []) \<rparr>"

definition demo_env :: os_env where
  "demo_env =
     \<lparr> open_process = (\<lambda>c d kw.
          if c = [''echo'', ''hello''] then Some echo_hello
          else if c = [''sleep'', ''5''] then Some sleep_5
          else if c = [''stubborn''] then Some stubborn
          else if c = [''garbled''] then Some garbled
          else if c = [''detached''] then Some detached
          else None),
       backend_available = (\<lambda>b. False) \<rparr>"

definition colorized :: callback where
  "colorized i text = Returned"

definition failing :: callback where
  "failing i text = Raised"

definition demo_runner :: "string list \<Rightarrow> nat option \<Rightarrow> runner" where
  "demo_runner c t = init c [] (Some colorized) (Some colorized) t 10"

text \<open>
  An instance in the middle of \<^verbatim>\<open>run\<close>: it owns the handle of \<open>stubborn\<close>, two ticks
  after the spawn. \<open>in_flight\<close> is that instance three ticks after a first call of
  \<^verbatim>\<open>terminate\<close> has sent its signal and suspended at line 96.
\<close>

definition owning :: runner where
  "owning = (demo_runner [''stubborn''] None)\<lparr>process := Some stubborn, clock := 2, spawned := 1\<rparr>"


definition hello_runner :: runner where
  "hello_runner = demo_runner [''echo'', ''hello''] None"

definition sleep_runner :: runner where
  "sleep_runner = demo_runner [''sleep'', ''5''] (Some 1)"

definition stubborn_runner :: runner where
  "stubborn_runner = demo_runner [''stubborn''] (Some 1)"

definition missing_runner :: runner where
  "missing_runner = demo_runner [''no-such-command''] None"

definition garbled_runner :: runner where
  "garbled_runner = demo_runner [''garbled''] None"

definition garbled_timed :: runner where
  "garbled_timed = demo_runner [''garbled''] (Some 3)"

definition detached_runner :: runner where
  "detached_runner = demo_runner [''detached''] None"

definition detached_timed :: runner where
  "detached_timed = demo_runner [''detached''] (Some 3)"



definition stale :: runner where
  "stale = missing_runner\<lparr>stdout_history := ''old output'', stderr_history := ''old errors''\<rparr>"

section \<open>Facts about the pump\<close>

lemma handle_stream_buffer:
  "fst (snd (handle_stream its cb (b, c, n))) = b @ concat (decoded its)"
  by (induction its cb "(b, c, n)" arbitrary: b c n rule: handle_stream.induct)
     (auto split: option.splits cb_outcome.splits)

lemma handle_stream_calls_some:
  "fst (snd (snd (handle_stream its (Some f) (b, c, n)))) = c @ decoded its"
  by (induction its "Some f" "(b, c, n)" arbitrary: b c n rule: handle_stream.induct)
     (auto split: cb_outcome.splits)

lemma handle_stream_calls_none:
  "snd (snd (handle_stream its None (b, c, n))) = (c, n)"
  by (induction its "None :: callback option" "(b, c, n)" arbitrary: b c n
      rule: handle_stream.induct) auto

lemma handle_stream_all_raise:
  "snd (snd (snd (handle_stream its (Some (\<lambda>i text. Raised)) (b, c, n)))) =
     n + length (decoded its)"
  by (induction its "Some (\<lambda>(i::nat) (text::string). Raised)" "(b, c, n)" arbitrary: b c n
      rule: handle_stream.induct) auto

lemma handle_stream_raises:
  "fst (handle_stream its cb (b, c, n)) \<longleftrightarrow> Undecodable \<in> set its"
  by (induction its cb "(b, c, n)" arbitrary: b c n rule: handle_stream.induct)
     (auto split: option.splits cb_outcome.splits)

lemma decoded_chunks: "decoded (map Chunk chunks) = chunks"
  by (induction chunks) auto

lemma handle_stream_buffer_eq:
  "handle_stream its cb (b, c, n) = (r, b', c', n') \<Longrightarrow> b' = b @ concat (decoded its)"
  using handle_stream_buffer [of its cb b c n] by simp

lemma handle_stream_calls_eq:
  assumes "handle_stream its cb (b, c, n) = (r, b', c', n')"
  shows "c' = (case cb of None \<Rightarrow> c | Some f \<Rightarrow> c @ decoded its)"
proof (cases cb)
  case None
  with assms handle_stream_calls_none [of its b c n] show ?thesis by simp
next
  case (Some f)
  with assms handle_stream_calls_some [of its f b c n] show ?thesis by simp
qed

lemma captured_all: "captured None st = delivered st"
  by (cases st) (simp_all add: captured_def delivered_def readable_def)

lemma pump_stdout_frame:
  "process (pump_stdout p stop s) = process s" "clock (pump_stdout p stop s) = clock s"
  "signals (pump_stdout p stop s) = signals s" "timeout (pump_stdout p stop s) = timeout s"
  "terminate_grace_period (pump_stdout p stop s) = terminate_grace_period s"
  "stderr_history (pump_stdout p stop s) = stderr_history s"
  "stderr_calls (pump_stdout p stop s) = stderr_calls s"
  "stdout_callback (pump_stdout p stop s) = stdout_callback s"
  "stderr_callback (pump_stdout p stop s) = stderr_callback s"
  "spawned (pump_stdout p stop s) = spawned s"
  by (auto simp: pump_stdout_def split: option.splits prod.splits)

lemma pump_stderr_frame:
  "process (pump_stderr p stop s) = process s" "clock (pump_stderr p stop s) = clock s"
  "signals (pump_stderr p stop s) = signals s" "timeout (pump_stderr p stop s) = timeout s"
  "terminate_grace_period (pump_stderr p stop s) = terminate_grace_period s"
  "stdout_history (pump_stderr p stop s) = stdout_history s"
  "stdout_calls (pump_stderr p stop s) = stdout_calls s"
  "stdout_callback (pump_stderr p stop s) = stdout_callback s"
  "stderr_callback (pump_stderr p stop s) = stderr_callback s"
  "spawned (pump_stderr p stop s) = spawned s"
  by (auto simp: pump_stderr_def split: option.splits prod.splits)

lemma pump_stdout_history:
  "stdout_history (pump_stdout p stop s) =
     stdout_history s @ concat (captured stop (p_stdout p))"
  by (auto simp: pump_stdout_def captured_def split: option.splits prod.splits
           dest: handle_stream_buffer_eq)

lemma pump_stderr_history:
  "stderr_history (pump_stderr p stop s) =
     stderr_history s @ concat (captured stop (p_stderr p))"
  by (auto simp: pump_stderr_def captured_def split: option.splits prod.splits
           dest: handle_stream_buffer_eq)

lemma pump_stdout_calls:
  "stdout_calls (pump_stdout p stop s) =
     (case stdout_callback s of None \<Rightarrow> stdout_calls s
      | Some f \<Rightarrow> stdout_calls s @ captured stop (p_stdout p))"
  by (auto simp: pump_stdout_def captured_def split: option.splits prod.splits
           dest: handle_stream_calls_eq)

lemma pump_stderr_calls:
  "stderr_calls (pump_stderr p stop s) =
     (case stderr_callback s of None \<Rightarrow> stderr_calls s
      | Some f \<Rightarrow> stderr_calls s @ captured stop (p_stderr p))"
  by (auto simp: pump_stderr_def captured_def split: option.splits prod.splits
           dest: handle_stream_calls_eq)

lemmas pump_facts =
  pump_stdout_frame pump_stderr_frame pump_stdout_history pump_stderr_history
  pump_stdout_calls pump_stderr_calls

section \<open>Facts about the exit and the termination\<close>

lemma proc_exit_nil: "proc_exit p [] = natural_exit p"
  by (simp add: proc_exit_def)

lemma proc_exit_snoc:
  "proc_exit p (sigs @ [sg]) = earlier (proc_exit p sigs) (signal_exit p sg)"
  by (simp add: proc_exit_def)

lemma earlier_Some: "earlier a (Some b) \<noteq> None"
  by (cases a; cases b) (auto split: prod.splits)

lemma earlier_keeps:
  "earlier (Some (e, rc)) x = Some (e', rc') \<Longrightarrow> e' \<le> e"
  by (cases x) (auto split: if_splits)

lemma wait_until_nil: "wait_until p [] t = None \<longleftrightarrow> \<not> exits_within p t"
  by (auto simp: wait_until_def exits_within_def proc_exit_def split: option.splits)

lemma wait_until_nil_Some:
  "natural_exit p = Some (e, rc) \<Longrightarrow> exits_within p t \<Longrightarrow> wait_until p [] t = Some (e, rc)"
  by (auto simp: wait_until_def exits_within_def proc_exit_def)


lemma terminate_signals:
  "process s = Some p \<Longrightarrow>
   signals (terminate s) =
     signals s @ (clock s, SIGTERM) #
       (case wait_until p (signals s @ [(clock s, SIGTERM)]) (clock s + terminate_grace_period s) of
          Some x \<Rightarrow> []
        | None \<Rightarrow> [(clock s + terminate_grace_period s, SIGKILL)])"
  by (auto simp: terminate_def grace_wait_def send_signal_def Let_def split: option.splits)


lemma terminate_clock_exited:
  "process s = Some p \<Longrightarrow>
   wait_until p (signals s @ [(clock s, SIGTERM)]) (clock s + terminate_grace_period s) = Some (e, rc) \<Longrightarrow>
   clock (terminate s) = max (clock s) e"
  by (simp add: terminate_def grace_wait_def send_signal_def)

lemma terminate_frame:
  "process (terminate s) = process s" "stdout_history (terminate s) = stdout_history s"
  "stderr_history (terminate s) = stderr_history s" "stdout_calls (terminate s) = stdout_calls s"
  "stderr_calls (terminate s) = stderr_calls s" "spawned (terminate s) = spawned s"
  by (auto simp: terminate_def grace_wait_def send_signal_def Let_def split: option.splits)

lemma terminate_exits:
  assumes "process s = Some p"
  shows "proc_exit p (signals (terminate s)) \<noteq> None"
proof (cases "wait_until p (signals s @ [(clock s, SIGTERM)]) (clock s + terminate_grace_period s)")
  case None
  then have "signals (terminate s) =
      (signals s @ [(clock s, SIGTERM)]) @ [(clock s + terminate_grace_period s, SIGKILL)]"
    using assms by (simp add: terminate_signals)
  then show ?thesis
    by (simp only: proc_exit_snoc signal_exit.simps earlier_Some not_False_eq_True)
next
  case (Some x)
  then have sg: "signals (terminate s) = signals s @ [(clock s, SIGTERM)]"
    using assms by (simp add: terminate_signals)
  from Some show ?thesis
    unfolding sg by (auto simp: wait_until_def split: option.splits)
qed




section \<open>What a run depends on\<close>

lemma core_clock: "core a = core b \<Longrightarrow> core (a\<lparr>clock := t\<rparr>) = core (b\<lparr>clock := t\<rparr>)"
  by (simp add: core_def)

lemma core_send_signal:
  "core a = core b \<Longrightarrow> core (send_signal sg a) = core (send_signal sg b)"
  by (simp add: core_def send_signal_def)

lemma core_grace_wait:
  "core a = core b \<Longrightarrow> core (grace_wait p d a) = core (grace_wait p d b)"
  by (auto simp: core_def grace_wait_def send_signal_def split: option.splits)

lemma core_terminate:
  "core a = core b \<Longrightarrow> core (terminate a) = core (terminate b)"
  by (auto simp: core_def terminate_def grace_wait_def send_signal_def split: option.splits)

lemma core_fields:
  "core a = core b \<Longrightarrow> timeout a = timeout b" "core a = core b \<Longrightarrow> signals a = signals b"
  "core a = core b \<Longrightarrow> clock a = clock b" "core a = core b \<Longrightarrow> stdout a = stdout b"
  "core a = core b \<Longrightarrow> stderr a = stderr b"
  "core a = core b \<Longrightarrow> terminate_grace_period a = terminate_grace_period b"
  by (simp_all add: core_def stdout_def stderr_def)

lemma observed_core:
  "core a = core b \<Longrightarrow> observed (Some (r, a\<lparr>clock := t, process := None\<rparr>)) =
     observed (Some (r, b\<lparr>clock := t, process := None\<rparr>))"
  by (simp add: observed_def core_def stdout_def stderr_def)

lemma completed_core:
  assumes "core a = core b"
  shows "observed (completed p a) = observed (completed p b)"
  using assms by (simp add: completed_def observed_def core_def stdout_def stderr_def)

lemma timed_out_core:
  assumes "core a = core b"
  shows "observed (timed_out p a) = observed (timed_out p b)"
proof -
  from core_terminate [OF assms] show ?thesis
    by (auto simp: timed_out_def Let_def observed_def core_def stdout_def stderr_def
        split: option.splits)
qed

lemma cancelled_body_early:
  "timeout s = Some t \<Longrightarrow> wait_until p (signals s) t \<noteq> None \<or> c \<le> t \<Longrightarrow>
   cancelled_body p c s = s"
  by (simp add: cancelled_body_def)

lemma cancelled_body_grace:
  "timeout s = Some t \<Longrightarrow> \<not> (wait_until p (signals s) t \<noteq> None \<or> c \<le> t) \<Longrightarrow>
   wait_until p (signals (send_signal SIGTERM (s\<lparr>clock := t\<rparr>))) (t + terminate_grace_period s) = None
     \<and> c \<le> t + terminate_grace_period s \<Longrightarrow>
   cancelled_body p c s = send_signal SIGTERM (s\<lparr>clock := t\<rparr>)"
  by (simp add: cancelled_body_def Let_def)

lemma cancelled_body_late:
  "timeout s = Some t \<Longrightarrow> \<not> (wait_until p (signals s) t \<noteq> None \<or> c \<le> t) \<Longrightarrow>
   \<not> (wait_until p (signals (send_signal SIGTERM (s\<lparr>clock := t\<rparr>))) (t + terminate_grace_period s) = None
     \<and> c \<le> t + terminate_grace_period s) \<Longrightarrow>
   cancelled_body p c s =
     grace_wait p (t + terminate_grace_period s) (send_signal SIGTERM (s\<lparr>clock := t\<rparr>))"
  by (auto simp: cancelled_body_def Let_def)

lemma cancelled_body_core:
  assumes "core a = core b"
  shows "core (cancelled_body p c a) = core (cancelled_body p c b)"
proof (cases "timeout b")
  case None
  with assms core_fields(1) [OF assms] show ?thesis
    by (simp add: cancelled_body_def)
next
  case (Some t)
  have tm: "timeout a = Some t" using Some core_fields(1) [OF assms] by simp
  have sg: "signals a = signals b" by (rule core_fields(2) [OF assms])
  have gr: "terminate_grace_period a = terminate_grace_period b"
    by (rule core_fields(6) [OF assms])
  have c2: "core (send_signal SIGTERM (a\<lparr>clock := t\<rparr>)) =
      core (send_signal SIGTERM (b\<lparr>clock := t\<rparr>))"
    by (rule core_send_signal [OF core_clock [OF assms]])
  have s2: "signals (send_signal SIGTERM (a\<lparr>clock := t\<rparr>)) =
      signals (send_signal SIGTERM (b\<lparr>clock := t\<rparr>))"
    by (rule core_fields(2) [OF c2])
  show ?thesis
  proof (cases "wait_until p (signals b) t \<noteq> None \<or> c \<le> t")
    case True
    then have "wait_until p (signals a) t \<noteq> None \<or> c \<le> t" unfolding sg .
    from cancelled_body_early [OF tm this] cancelled_body_early [OF Some True] assms
    show ?thesis by simp
  next
    case False
    then have fa: "\<not> (wait_until p (signals a) t \<noteq> None \<or> c \<le> t)"
      unfolding sg .
    show ?thesis
    proof (cases "wait_until p (signals (send_signal SIGTERM (b\<lparr>clock := t\<rparr>)))
        (t + terminate_grace_period b) = None \<and> c \<le> t + terminate_grace_period b")
      case True
      then have "wait_until p (signals (send_signal SIGTERM (a\<lparr>clock := t\<rparr>)))
        (t + terminate_grace_period a) = None \<and> c \<le> t + terminate_grace_period a"
        unfolding s2 gr .
      from cancelled_body_grace [OF tm fa this] cancelled_body_grace [OF Some False True] c2
      show ?thesis by simp
    next
      case inner: False
      then have "\<not> (wait_until p (signals (send_signal SIGTERM (a\<lparr>clock := t\<rparr>)))
        (t + terminate_grace_period a) = None \<and> c \<le> t + terminate_grace_period a)"
        unfolding s2 gr .
      from cancelled_body_late [OF tm fa this] cancelled_body_late [OF Some False inner]
        core_grace_wait [OF c2, of p "t + terminate_grace_period b"] gr
      show ?thesis by simp
    qed
  qed
qed

lemma cancelled_run_core:
  assumes "core a = core b"
  shows "observed (cancelled_run p c a) = observed (cancelled_run p c b)"
proof -
  have k: "core (cancelled_body p c a) = core (cancelled_body p c b)"
    by (rule cancelled_body_core [OF assms])
  have sg: "signals (cancelled_body p c a) = signals (cancelled_body p c b)"
    and ck: "clock (cancelled_body p c a) = clock (cancelled_body p c b)"
    by (rule core_fields [OF k])+
  show ?thesis
  proof (cases "proc_exit p (signals (cancelled_body p c b))")
    case None
    then show ?thesis by (simp add: cancelled_run_def Let_def sg)
  next
    case (Some x)
    obtain e rc where x: "x = (e, rc)" by (cases x)
    from Some show ?thesis
      unfolding x
      by (simp add: cancelled_run_def Let_def sg ck observed_core [OF k])
  qed
qed

lemma core_pumps:
  "core (pump_stderr p stop (pump_stdout p stop s)) =
     (timeout s, terminate_grace_period s, signals s, clock s, process s,
      stdout_history s @ concat (captured stop (p_stdout p)),
      stderr_history s @ concat (captured stop (p_stderr p)))"
  by (simp add: core_def pump_facts)

section \<open>The ways a run ends\<close>

lemma spawn_reset:
  "spawn env kw (s\<lparr>stdout_history := a, stderr_history := b\<rparr>) = spawn env kw s"
  by (simp add: spawn_def)

lemma spawn_open:
  "spawn env kw s = Inr p \<Longrightarrow> open_process env (cmd s) (cwd s) kw = Some p"
  by (auto simp: spawn_def split: if_splits option.splits)

lemma run_spawn_failure:
  "spawn env kw s = Inl err \<Longrightarrow>
   run env kw s = Some (Inl err, s\<lparr>stdout_history := [], stderr_history := [], process := None\<rparr>)"
  by (simp add: run_def spawn_reset)

lemma run_pump_failure:
  "spawn env kw s = Inr p \<Longrightarrow> fail_tick p = Some c \<Longrightarrow>
   run env kw s = cancelled_run p c (pump_stderr p (Some c) (pump_stdout p (Some c)
      (s\<lparr>stdout_history := [], stderr_history := [], process := Some p, clock := 0,
          signals := [], spawned := Suc (spawned s)\<rparr>)))"
  by (simp add: run_def spawn_reset Let_def)

lemma cancelled_run_outcome:
  "cancelled_run p c s = Some (r, s') \<Longrightarrow> r = Inl ExceptionGroup \<and> process s' = None"
  by (auto simp: cancelled_run_def Let_def split: option.splits)

lemma run_hangs:
  "spawn env kw s = Inr p \<Longrightarrow> fail_tick p = None \<Longrightarrow> \<not> all_close p \<Longrightarrow>
   run env kw s = None"
  by (simp add: run_def spawn_reset Let_def)

lemma run_never_returns:
  "spawn env kw s = Inr p \<Longrightarrow> fail_tick p = None \<Longrightarrow> timeout s = None \<Longrightarrow>
   natural_exit p = None \<Longrightarrow> run env kw s = None"
  by (simp add: run_def spawn_reset Let_def pump_facts proc_exit_nil)

lemma run_completes:
  assumes spawn: "spawn env kw s = Inr p"
    and exit: "natural_exit p = Some (e, rc)"
    and intime: "\<forall>t. timeout s = Some t \<longrightarrow> exits_within p t"
    and clean: "fail_tick p = None" "all_close p"
  shows "\<exists>s'. run env kw s =
            Some (Inr (Some rc, concat (delivered (p_stdout p)), concat (delivered (p_stderr p))), s')
          \<and> stdout s' = concat (delivered (p_stdout p))
          \<and> stderr s' = concat (delivered (p_stderr p))
          \<and> process s' = None \<and> signals s' = []"
proof (cases "timeout s")
  case None
  with spawn exit clean show ?thesis
    by (simp add: run_def spawn_reset Let_def pump_facts proc_exit_nil completed_def
        returncode_def stdout_def stderr_def captured_all)
next
  case (Some t)
  with intime have "exits_within p t" by simp
  with exit have "wait_until p [] t = Some (e, rc)" by (rule wait_until_nil_Some)
  with spawn exit Some clean show ?thesis
    by (simp add: run_def spawn_reset Let_def pump_facts proc_exit_nil completed_def
        returncode_def stdout_def stderr_def captured_all)
qed

lemma run_times_out:
  assumes spawn: "spawn env kw s = Inr p"
    and tmo: "timeout s = Some t"
    and late: "\<not> exits_within p t"
    and clean: "fail_tick p = None" "all_close p"
  shows "\<exists>s' rest. run env kw s = Some (Inl ProcessTimeoutError, s')
          \<and> stdout s' = concat (delivered (p_stdout p))
          \<and> stderr s' = concat (delivered (p_stderr p))
          \<and> stdout_calls s' =
              (case stdout_callback s of None \<Rightarrow> stdout_calls s
               | Some f \<Rightarrow> stdout_calls s @ delivered (p_stdout p))
          \<and> stderr_calls s' =
              (case stderr_callback s of None \<Rightarrow> stderr_calls s
               | Some f \<Rightarrow> stderr_calls s @ delivered (p_stderr p))
          \<and> signals s' = (t, SIGTERM) # rest
          \<and> returncode p (signals s') (clock s') \<noteq> None
          \<and> process s' = None"
proof -
  define s3 where "s3 = (pump_stderr p None (pump_stdout p None
      (s\<lparr>stdout_history := [], stderr_history := [], process := Some p, clock := 0,
          signals := [], spawned := Suc (spawned s)\<rparr>)))\<lparr>clock := t\<rparr>"
  have own: "process s3 = Some p" and clk: "clock s3 = t" and sg: "signals s3 = []"
    by (simp_all add: s3_def pump_facts)
  from late have w: "wait_until p [] t = None" by (simp add: wait_until_nil)
  obtain e rc where ex: "proc_exit p (signals (terminate s3)) = Some (e, rc)"
    using terminate_exits [OF own] by fastforce
  have r: "run env kw s =
      Some (Inl ProcessTimeoutError, (terminate s3)\<lparr>clock := max (clock (terminate s3)) e, process := None\<rparr>)"
    using spawn tmo w ex clean
    by (simp add: run_def spawn_reset Let_def pump_facts timed_out_def s3_def)
  have sigs: "\<exists>rest. signals (terminate s3) = (t, SIGTERM) # rest"
    using terminate_signals [OF own] by (simp add: sg clk)
  have rcode: "returncode p (signals (terminate s3)) (max (clock (terminate s3)) e) \<noteq> None"
    using ex by (simp add: returncode_def)
  have hist: "stdout_history (terminate s3) = concat (delivered (p_stdout p))"
    "stderr_history (terminate s3) = concat (delivered (p_stderr p))"
    by (simp_all add: terminate_frame s3_def pump_facts captured_all)
  have calls: "stdout_calls (terminate s3) =
        (case stdout_callback s of None \<Rightarrow> stdout_calls s
         | Some f \<Rightarrow> stdout_calls s @ delivered (p_stdout p))"
    "stderr_calls (terminate s3) =
        (case stderr_callback s of None \<Rightarrow> stderr_calls s
         | Some f \<Rightarrow> stderr_calls s @ delivered (p_stderr p))"
    by (simp_all add: terminate_frame s3_def pump_facts captured_all split: option.splits)
  from r sigs rcode hist calls show ?thesis
    by (auto simp: stdout_def stderr_def)
qed

lemma run_observed:
  assumes spawn: "spawn env kw s = Inr p" and clean: "fail_tick p = None" "all_close p"
  shows "observed (run env kw s) =
     (let out = concat (delivered (p_stdout p)); err = concat (delivered (p_stderr p)) in
      case natural_exit p of
        None \<Rightarrow>
          (case timeout s of None \<Rightarrow> None
           | Some t \<Rightarrow> Some (Inl ProcessTimeoutError, out, err))
      | Some (e, rc) \<Rightarrow>
          (if \<forall>t. timeout s = Some t \<longrightarrow> exits_within p t
           then Some (Inr (Some rc, out, err), out, err)
           else Some (Inl ProcessTimeoutError, out, err)))"
proof (cases "\<forall>t. timeout s = Some t \<longrightarrow> exits_within p t")
  case True
  show ?thesis
  proof (cases "natural_exit p")
    case None
    with True have "timeout s = None"
      by (cases "timeout s") (auto simp: exits_within_def)
    with spawn clean None show ?thesis
      by (simp add: run_never_returns observed_def)
  next
    case (Some x)
    obtain e rc where x: "x = (e, rc)" by (cases x)
    from run_completes [OF spawn Some [unfolded x] True clean]
    show ?thesis
      using Some x True by (auto simp: observed_def Let_def)
  qed
next
  case False
  then obtain t where t: "timeout s = Some t" "\<not> exits_within p t" by auto
  from run_times_out [OF spawn t clean] show ?thesis
    using t by (auto simp: observed_def Let_def exits_within_def split: option.splits)
qed

lemma run_timeout_cause:
  assumes "run env kw s = Some (Inl ProcessTimeoutError, s')"
  shows "\<exists>t p. timeout s = Some t \<and> spawn env kw s = Inr p \<and> \<not> exits_within p t
           \<and> fail_tick p = None \<and> all_close p"
proof (cases "spawn env kw s")
  case (Inl err)
  from assms run_spawn_failure [OF Inl] have "err = ProcessTimeoutError" by simp
  with Inl have False
    by (auto simp: spawn_def split: if_splits option.splits)
  then show ?thesis ..
next
  case (Inr p)
  show ?thesis
  proof (cases "fail_tick p")
    case (Some c)
    from assms run_pump_failure [OF Inr Some] cancelled_run_outcome
    have False by fastforce
    then show ?thesis ..
  next
    case None
    show ?thesis
    proof (cases "all_close p")
      case False
      with assms run_hangs [OF Inr None] have False by simp
      then show ?thesis ..
    next
      case True
      from assms have obs: "observed (run env kw s) =
          Some (Inl ProcessTimeoutError, stdout s', stderr s')"
        by (simp add: observed_def)
      show ?thesis
      proof (cases "\<forall>t. timeout s = Some t \<longrightarrow> exits_within p t")
        case all: True
        with obs have False
          unfolding run_observed [OF Inr None True]
          by (cases "timeout s") (auto simp: Let_def exits_within_def split: option.splits)
        then show ?thesis ..
      next
        case False
        with Inr None True show ?thesis by auto
      qed
    qed
  qed
qed

lemma run_clears_process:
  assumes "run env kw s = Some (r, s')"
  shows "process s' = None"
proof (cases "spawn env kw s")
  case (Inl err)
  from assms run_spawn_failure [OF Inl] show ?thesis by auto
next
  case (Inr p)
  show ?thesis
  proof (cases "fail_tick p")
    case (Some c)
    from assms run_pump_failure [OF Inr Some] cancelled_run_outcome
    show ?thesis by fastforce
  next
    case None
    with assms Inr show ?thesis
      by (auto simp: run_def spawn_reset Let_def completed_def timed_out_def
          split: option.splits if_splits)
  qed
qed

lemma run_observed_core:
  assumes "cmd a = cmd b" "cwd a = cwd b" "timeout a = timeout b"
    "terminate_grace_period a = terminate_grace_period b"
  shows "observed (run env kw a) = observed (run env kw b)"
proof -
  have sp: "spawn env kw a = spawn env kw b"
    using assms by (simp add: spawn_def)
  show ?thesis
  proof (cases "spawn env kw b")
    case (Inl err)
    with sp show ?thesis
      by (simp add: run_spawn_failure observed_def stdout_def stderr_def)
  next
    case (Inr p)
    define a2 where "a2 = a\<lparr>stdout_history := [], stderr_history := [], process := Some p,
        clock := 0, signals := [], spawned := Suc (spawned a)\<rparr>"
    define b2 where "b2 = b\<lparr>stdout_history := [], stderr_history := [], process := Some p,
        clock := 0, signals := [], spawned := Suc (spawned b)\<rparr>"
    have k: "\<And>stop. core (pump_stderr p stop (pump_stdout p stop a2)) =
        core (pump_stderr p stop (pump_stdout p stop b2))"
      using assms by (simp add: core_pumps a2_def b2_def)
    have ra: "run env kw a =
        (case fail_tick p of
           Some c \<Rightarrow> cancelled_run p c (pump_stderr p (Some c) (pump_stdout p (Some c) a2))
         | None \<Rightarrow>
             if \<not> all_close p then None
             else
               (case timeout a of
                  None \<Rightarrow>
                    (case natural_exit p of
                       None \<Rightarrow> None
                     | Some (e, rc) \<Rightarrow>
                         completed p ((pump_stderr p None (pump_stdout p None a2))\<lparr>clock := e\<rparr>))
                | Some t \<Rightarrow>
                    (case wait_until p [] t of
                       Some (e, rc) \<Rightarrow>
                         completed p ((pump_stderr p None (pump_stdout p None a2))\<lparr>clock := e\<rparr>)
                     | None \<Rightarrow>
                         timed_out p ((pump_stderr p None (pump_stdout p None a2))\<lparr>clock := t\<rparr>))))"
      using Inr sp
      by (auto simp: run_def spawn_reset Let_def a2_def pump_facts proc_exit_nil
          split: option.splits)
    have rb: "run env kw b =
        (case fail_tick p of
           Some c \<Rightarrow> cancelled_run p c (pump_stderr p (Some c) (pump_stdout p (Some c) b2))
         | None \<Rightarrow>
             if \<not> all_close p then None
             else
               (case timeout b of
                  None \<Rightarrow>
                    (case natural_exit p of
                       None \<Rightarrow> None
                     | Some (e, rc) \<Rightarrow>
                         completed p ((pump_stderr p None (pump_stdout p None b2))\<lparr>clock := e\<rparr>))
                | Some t \<Rightarrow>
                    (case wait_until p [] t of
                       Some (e, rc) \<Rightarrow>
                         completed p ((pump_stderr p None (pump_stdout p None b2))\<lparr>clock := e\<rparr>)
                     | None \<Rightarrow>
                         timed_out p ((pump_stderr p None (pump_stdout p None b2))\<lparr>clock := t\<rparr>))))"
      using Inr
      by (auto simp: run_def spawn_reset Let_def b2_def pump_facts proc_exit_nil
          split: option.splits)
    show ?thesis
      unfolding ra rb
      using assms(3) cancelled_run_core [OF k] completed_core [OF core_clock [OF k]]
        timed_out_core [OF core_clock [OF k]]
      by (auto simp: observed_def [of None] split: option.splits)
  qed
qed

lemma run_observed_callbacks:
  "observed (run env kw (s\<lparr>stdout_callback := a, stderr_callback := b\<rparr>)) =
     observed (run env kw s)"
  by (rule run_observed_core) simp_all

lemma fst_observed: "map_option fst (observed x) = map_option fst x"
  by (cases x) (auto simp: observed_def)

lemma run_result_split:
  "observed (run env kw s) = Some y \<Longrightarrow>
   run env kw s = Some (fst (the (run env kw s)), snd (the (run env kw s)))"
  by (cases "run env kw s") (auto simp: observed_def)

section \<open>The demonstration, evaluated\<close>

lemma demo_spawns:
  "spawn demo_env [] hello_runner = Inr echo_hello"
  "spawn demo_env [] sleep_runner = Inr sleep_5"
  "spawn demo_env [] stubborn_runner = Inr stubborn"
  "spawn demo_env [] missing_runner = Inl OSError"
  "spawn demo_env [] garbled_runner = Inr garbled"
  "spawn demo_env [] garbled_timed = Inr garbled"
  "spawn demo_env [] detached_runner = Inr detached"
  "spawn demo_env [] detached_timed = Inr detached"
  by (simp_all add: spawn_def bad_call_def demo_env_def hello_runner_def sleep_runner_def
      stubborn_runner_def missing_runner_def garbled_runner_def garbled_timed_def
      detached_runner_def detached_timed_def demo_runner_def init_def)

lemma demo_timeouts:
  "timeout hello_runner = None" "timeout sleep_runner = Some 1"
  "timeout stubborn_runner = Some 1" "timeout missing_runner = None"
  "timeout garbled_runner = None" "timeout garbled_timed = Some 3"
  "timeout detached_runner = None" "timeout detached_timed = Some 3"
  by (simp_all add: hello_runner_def sleep_runner_def stubborn_runner_def
      missing_runner_def garbled_runner_def garbled_timed_def detached_runner_def
      detached_timed_def demo_runner_def init_def)

lemma demo_clean:
  "fail_tick echo_hello = None" "all_close echo_hello"
  "fail_tick sleep_5 = None" "all_close sleep_5"
  "fail_tick stubborn = None" "all_close stubborn"
  by (simp_all add: fail_tick_def stream_failure_def all_close_def stream_closes_def
      echo_hello_def sleep_5_def stubborn_def text_stream_def)

lemma demo_delivered:
  "delivered (p_stdout echo_hello) = [''hello'' @ [CHR 0x0A]]"
  "delivered (p_stderr echo_hello) = []"
  "delivered (p_stdout sleep_5) = []" "delivered (p_stderr sleep_5) = []"
  "delivered (p_stdout stubborn) = [''a'', ''b'']" "delivered (p_stderr stubborn) = [''x'']"
  by (simp_all add: delivered_def echo_hello_def sleep_5_def stubborn_def text_stream_def)

lemma demo_exits:
  "natural_exit echo_hello = Some (1, 0)" "natural_exit sleep_5 = Some (5, 0)"
  "natural_exit stubborn = None"
  by (simp_all add: echo_hello_def sleep_5_def stubborn_def)

lemma demo_observed:
  "observed (run demo_env [] hello_runner) =
     Some (Inr (Some 0, ''hello'' @ [CHR 0x0A], []), ''hello'' @ [CHR 0x0A], [])"
  "observed (run demo_env [] sleep_runner) = Some (Inl ProcessTimeoutError, [], [])"
  "observed (run demo_env [] stubborn_runner) = Some (Inl ProcessTimeoutError, ''ab'', ''x'')"
  "observed (run demo_env [] missing_runner) = Some (Inl OSError, [], [])"
proof -
  show "observed (run demo_env [] hello_runner) =
     Some (Inr (Some 0, ''hello'' @ [CHR 0x0A], []), ''hello'' @ [CHR 0x0A], [])"
    by (simp add: run_observed [OF demo_spawns(1) demo_clean(1,2)] demo_timeouts
        demo_delivered demo_exits Let_def)
  show "observed (run demo_env [] sleep_runner) = Some (Inl ProcessTimeoutError, [], [])"
    by (simp add: run_observed [OF demo_spawns(2) demo_clean(3,4)] demo_timeouts
        demo_delivered demo_exits Let_def exits_within_def)
  show "observed (run demo_env [] stubborn_runner) = Some (Inl ProcessTimeoutError, ''ab'', ''x'')"
    by (simp add: run_observed [OF demo_spawns(3) demo_clean(5,6)] demo_timeouts
        demo_delivered demo_exits Let_def)
  show "observed (run demo_env [] missing_runner) = Some (Inl OSError, [], [])"
    by (simp add: run_spawn_failure [OF demo_spawns(4)] observed_def stdout_def stderr_def)
qed




section \<open>The claims\<close>







text \<open>
  C3. When \<^verbatim>\<open>run\<close> raises the timeout error, neither pump has been cut short: each
  buffer holds every chunk of its stream up to end-of-stream, and each callback that
  is present has been given every chunk of its stream, in order.
\<close>

theorem timeout_keeps_output:
  assumes "run env kw s = Some (Inl ProcessTimeoutError, s')"
  shows "\<exists>p. open_process env (cmd s) (cwd s) kw = Some p
          \<and> stdout s' = concat (delivered (p_stdout p))
          \<and> stderr s' = concat (delivered (p_stderr p))
          \<and> stdout_calls s' =
              (case stdout_callback s of None \<Rightarrow> stdout_calls s
               | Some f \<Rightarrow> stdout_calls s @ delivered (p_stdout p))
          \<and> stderr_calls s' =
              (case stderr_callback s of None \<Rightarrow> stderr_calls s
               | Some f \<Rightarrow> stderr_calls s @ delivered (p_stderr p))"
proof -
  from run_timeout_cause [OF assms]
  obtain t p where h: "spawn env kw s = Inr p" "timeout s = Some t"
    "\<not> exits_within p t" "fail_tick p = None" "all_close p" by blast
  from run_times_out [OF h] assms spawn_open [OF h(1)] show ?thesis by auto
qed

text \<open>The witness is a process that writes to both streams, never exits and ignores
  the graceful signal, under a timeout of one tick.\<close>

theorem timeout_keeps_output_witness:
  "run demo_env [] stubborn_runner =
      Some (Inl ProcessTimeoutError, snd (the (run demo_env [] stubborn_runner)))
   \<and> stdout (snd (the (run demo_env [] stubborn_runner))) = ''ab''
   \<and> stderr (snd (the (run demo_env [] stubborn_runner))) = ''x''
   \<and> stdout_calls (snd (the (run demo_env [] stubborn_runner))) = [''a'', ''b'']
   \<and> stderr_calls (snd (the (run demo_env [] stubborn_runner))) = [''x'']"
proof -
  have "\<not> exits_within stubborn 1"
    by (simp add: exits_within_def stubborn_def)
  from run_times_out [OF demo_spawns(3) demo_timeouts(3) this demo_clean(5,6)]
  have r: "run demo_env [] stubborn_runner =
      Some (Inl ProcessTimeoutError, snd (the (run demo_env [] stubborn_runner)))"
    by auto
  have "delivered (p_stdout stubborn) = [''a'', ''b'']" "delivered (p_stderr stubborn) = [''x'']"
    "stdout_callback stubborn_runner = Some colorized"
    "stderr_callback stubborn_runner = Some colorized"
    "stdout_calls stubborn_runner = []" "stderr_calls stubborn_runner = []"
    by (simp_all add: demo_delivered stubborn_runner_def demo_runner_def init_def)
  with timeout_keeps_output [OF r] spawn_open [OF demo_spawns(3)] r show ?thesis
    by auto
qed

text \<open>
  C4. Whatever the callback does, the pump appends every chunk it reads to the buffer
  and goes on, invoking the callback on every chunk; a callback that raises on every
  invocation has each of its errors logged and discarded, and on a stream of text the
  pump ends at end-of-stream without raising. The outcome and the captured texts of a
  run do not depend on the callbacks, so a run with raising callbacks ends as the same
  run with no callback does.
\<close>

theorem callback_errors_discarded:
  "fst (snd (handle_stream (map Chunk chunks) cb (b, c, n))) = b @ concat chunks
   \<and> fst (snd (snd (handle_stream (map Chunk chunks) (Some f) (b, c, n)))) = c @ chunks
   \<and> snd (snd (snd (handle_stream (map Chunk chunks) (Some (\<lambda>i text. Raised)) (b, c, n)))) =
       n + length chunks
   \<and> \<not> fst (handle_stream (map Chunk chunks) cb (b, c, n))
   \<and> fst (snd (handle_stream its cb (b, c, n))) = b @ concat (decoded its)
   \<and> fst (snd (snd (handle_stream its (Some f) (b, c, n)))) = c @ decoded its
   \<and> snd (snd (snd (handle_stream its (Some (\<lambda>i text. Raised)) (b, c, n)))) =
       n + length (decoded its)
   \<and> observed (run env kw (s\<lparr>stdout_callback := Some f, stderr_callback := Some g\<rparr>)) =
       observed (run env kw (s\<lparr>stdout_callback := None, stderr_callback := None\<rparr>))"
  by (auto simp: handle_stream_buffer handle_stream_calls_some handle_stream_all_raise
      handle_stream_raises decoded_chunks run_observed_callbacks)

text \<open>The witness runs \<^verbatim>\<open>echo hello\<close> with callbacks that raise on every invocation.\<close>

theorem callback_errors_discarded_witness:
  "handle_stream [Chunk ''a'', Chunk ''b''] (Some failing) ([], [], 0) =
     (False, ''ab'', [''a'', ''b''], 2)
   \<and> observed (run demo_env []
        (hello_runner\<lparr>stdout_callback := Some failing, stderr_callback := Some failing\<rparr>)) =
      observed (run demo_env []
        (hello_runner\<lparr>stdout_callback := None, stderr_callback := None\<rparr>))"
  using callback_errors_discarded [where chunks = "[''a'', ''b'']" and cb = "Some failing"
      and b = "[]" and c = "[]" and n = 0 and f = failing and g = failing
      and env = demo_env and kw = "[]" and s = hello_runner]
  by (simp add: failing_def)






text \<open>
  C7. When the spawn fails, \<^verbatim>\<open>run\<close> raises the error of the spawn at once: the
  \<^verbatim>\<open>OSError\<close> of an operating system that cannot create the process, or the
  \<^verbatim>\<open>TypeError\<close> of a call that is not well formed. There is no result, both accessors
  read empty (also when an earlier run had filled them), no callback has been invoked,
  no process has been spawned or signalled, no time has passed, and the instance owns
  no process.
\<close>

theorem spawn_failure_clean:
  assumes "spawn env kw s = Inl err"
  shows "\<exists>s'. run env kw s = Some (Inl err, s')
          \<and> stdout s' = [] \<and> stderr s' = []
          \<and> stdout_calls s' = stdout_calls s \<and> stderr_calls s' = stderr_calls s
          \<and> callback_errors s' = callback_errors s
          \<and> spawned s' = spawned s \<and> signals s' = signals s \<and> clock s' = clock s
          \<and> \<not> is_running s'
          \<and> (if bad_call (cmd s) kw then err = TypeError
               else err = OSError \<and> open_process env (cmd s) (cwd s) kw = None)"
  using run_spawn_failure [OF assms] assms
  by (auto simp: stdout_def stderr_def is_running_def spawn_def split: if_splits option.splits)

text \<open>The witness: a command that does not exist, on an instance that holds the
  output of an earlier run; and a second \<^verbatim>\<open>cwd\<close> passed to \<^verbatim>\<open>run\<close>.\<close>

theorem spawn_failure_clean_witness:
  "spawn demo_env [] stale = Inl OSError
   \<and> open_process demo_env (cmd stale) (cwd stale) [] = None
   \<and> stdout stale = ''old output''
   \<and> observed (run demo_env [] stale) = Some (Inl OSError, [], [])
   \<and> map_option (stdout_calls \<circ> snd) (run demo_env [] stale) = Some []
   \<and> spawn demo_env [(''cwd'', ''/tmp'')] hello_runner = Inl TypeError
   \<and> observed (run demo_env [(''cwd'', ''/tmp'')] hello_runner) = Some (Inl TypeError, [], [])"
proof -
  have a: "spawn demo_env [] stale = Inl OSError"
    using demo_spawns(4) by (simp add: stale_def spawn_reset)
  have b: "stdout stale = ''old output''" "stdout_calls stale = []"
    by (simp_all add: stale_def stdout_def missing_runner_def demo_runner_def init_def)
  have c: "spawn demo_env [(''cwd'', ''/tmp'')] hello_runner = Inl TypeError"
    by (simp add: spawn_def bad_call_def)
  from spawn_failure_clean [OF a] spawn_failure_clean [OF c] a b c show ?thesis
    by (auto simp: observed_def split: if_splits)
qed

text \<open>
  C8. After \<^verbatim>\<open>clear_history\<close> both accessors read empty, and every other attribute of
  the instance is as before; in particular \<^verbatim>\<open>is_running\<close> has the same value.
\<close>

theorem clear_history_frame:
  "stdout (clear_history s) = [] \<and> stderr (clear_history s) = []
   \<and> is_running (clear_history s) = is_running s
   \<and> process (clear_history s) = process s
   \<and> cmd (clear_history s) = cmd s \<and> cwd (clear_history s) = cwd s
   \<and> stdout_callback (clear_history s) = stdout_callback s
   \<and> stderr_callback (clear_history s) = stderr_callback s
   \<and> timeout (clear_history s) = timeout s
   \<and> terminate_grace_period (clear_history s) = terminate_grace_period s
   \<and> clear_history (clear_history s) = clear_history s"
  by (simp add: clear_history_def stdout_def stderr_def is_running_def)

theorem clear_history_frame_witness:
  "stdout stale = ''old output'' \<and> stdout (clear_history stale) = []
   \<and> stderr (clear_history stale) = []
   \<and> \<not> is_running stale \<and> \<not> is_running (clear_history stale)
   \<and> is_running owning \<and> is_running (clear_history owning)"
proof -
  have "stdout stale = ''old output''" "\<not> is_running stale" "is_running owning"
    by (simp_all add: stale_def stdout_def is_running_def owning_def missing_runner_def
        demo_runner_def init_def)
  with clear_history_frame [of stale] clear_history_frame [of owning] show ?thesis
    by simp
qed

text \<open>
  C9. \<^verbatim>\<open>is_running\<close> is false on a new instance, and it is false after every call of
  \<^verbatim>\<open>run\<close> that finishes, whether it returns, raises the timeout error or raises the
  spawn error.
\<close>

theorem run_clears_handle:
  "\<not> is_running (init c d out_cb err_cb t g)
   \<and> (\<forall>r s'. run env kw s = Some (r, s') \<longrightarrow> \<not> is_running s')"
  using run_clears_process [of env kw s]
  by (simp add: is_running_def init_def)

theorem run_clears_handle_witness:
  "\<not> is_running hello_runner
   \<and> map_option fst (run demo_env [] hello_runner) =
       Some (Inr (Some 0, ''hello'' @ [CHR 0x0A], []))
   \<and> \<not> is_running (snd (the (run demo_env [] hello_runner)))
   \<and> map_option fst (run demo_env [] sleep_runner) = Some (Inl ProcessTimeoutError)
   \<and> \<not> is_running (snd (the (run demo_env [] sleep_runner)))
   \<and> map_option fst (run demo_env [] missing_runner) = Some (Inl OSError)
   \<and> \<not> is_running (snd (the (run demo_env [] missing_runner)))"
proof -
  have new: "\<not> is_running hello_runner"
    using run_clears_handle [of "[''echo'', ''hello'']" "[]" "Some colorized" "Some colorized"
        None 10 demo_env "[]" hello_runner]
    by (simp add: hello_runner_def demo_runner_def)
  have res: "map_option fst (run demo_env [] hello_runner) =
       Some (Inr (Some 0, ''hello'' @ [CHR 0x0A], []))"
    "map_option fst (run demo_env [] sleep_runner) = Some (Inl ProcessTimeoutError)"
    "map_option fst (run demo_env [] missing_runner) = Some (Inl OSError)"
    using demo_observed(1,2,4) [THEN arg_cong [where f = "map_option fst"]]
    by (simp_all add: fst_observed)
  have "\<not> is_running (snd (the (run demo_env [] hello_runner)))"
    using run_clears_handle [where env = demo_env and kw = "[]" and s = hello_runner]
      run_result_split [OF demo_observed(1)] by blast
  moreover have "\<not> is_running (snd (the (run demo_env [] sleep_runner)))"
    using run_clears_handle [where env = demo_env and kw = "[]" and s = sleep_runner]
      run_result_split [OF demo_observed(2)] by blast
  moreover have "\<not> is_running (snd (the (run demo_env [] missing_runner)))"
    using run_clears_handle [where env = demo_env and kw = "[]" and s = missing_runner]
      run_result_split [OF demo_observed(4)] by blast
  ultimately show ?thesis using new res by simp
qed

text \<open>
  C10. \<^verbatim>\<open>run_sync\<close> hands its keyword arguments to \<^verbatim>\<open>anyio.run\<close>, not to \<^verbatim>\<open>run\<close>:
  with any keyword argument of the process spawn it raises \<^verbatim>\<open>TypeError\<close> and leaves
  the instance as it was, so that nothing has been spawned; with no keyword argument it
  does what \<^verbatim>\<open>run\<close> does.
\<close>

theorem run_sync_kwargs:
  "(\<forall>k v. k \<in> set open_process_params \<and> (k, v) \<in> set kw \<longrightarrow>
        run_sync env kw s = Some (Inl TypeError, s))
   \<and> run_sync env [] s = run env [] s"
proof (intro conjI allI impI)
  fix k v assume h: "k \<in> set open_process_params \<and> (k, v) \<in> set kw"
  then have "k \<notin> set anyio_run_params"
    by (auto simp: open_process_params_def anyio_run_params_def)
  with h have "list_ex (\<lambda>k. k \<notin> set anyio_run_params) (map fst kw)"
    by (force simp: list_ex_iff)
  then show "run_sync env kw s = Some (Inl TypeError, s)"
    by (simp add: run_sync_def)
next
  show "run_sync env [] s = run env [] s"
    by (simp add: run_sync_def)
qed

text \<open>The witness passes \<^verbatim>\<open>env\<close> to the \<^verbatim>\<open>echo hello\<close> instance: \<^verbatim>\<open>run\<close> spawns the
  process with it, \<^verbatim>\<open>run_sync\<close> raises before anything is spawned.\<close>

theorem run_sync_kwargs_witness:
  "''env'' \<in> set open_process_params
   \<and> run_sync demo_env [(''env'', ''{}'')] hello_runner = Some (Inl TypeError, hello_runner)
   \<and> observed (run demo_env [(''env'', ''{}'')] hello_runner) =
       Some (Inr (Some 0, ''hello'' @ [CHR 0x0A], []), ''hello'' @ [CHR 0x0A], [])
   \<and> observed (run_sync demo_env [] hello_runner) =
       Some (Inr (Some 0, ''hello'' @ [CHR 0x0A], []), ''hello'' @ [CHR 0x0A], [])"
proof -
  have a: "''env'' \<in> set open_process_params"
    by (simp add: open_process_params_def)
  have b: "spawn demo_env [(''env'', ''{}'')] hello_runner = Inr echo_hello"
    by (simp add: spawn_def bad_call_def open_process_params_def demo_env_def hello_runner_def
        demo_runner_def init_def)
  have c: "observed (run demo_env [(''env'', ''{}'')] hello_runner) =
       Some (Inr (Some 0, ''hello'' @ [CHR 0x0A], []), ''hello'' @ [CHR 0x0A], [])"
    by (simp add: run_observed [OF b demo_clean(1,2)] demo_timeouts demo_delivered demo_exits
        Let_def)
  from run_sync_kwargs [of "[(''env'', ''{}'')]" demo_env hello_runner] a c demo_observed(1)
  show ?thesis by auto
qed


end
